theory Spec2Isabelle
  imports Complex_Main "HOL-Library.Sublist"
begin

section \<open>Python strings\<close>

text \<open>
  A Python \<open>str\<close> is modelled as a \<open>string\<close>: each \<open>char\<close> is one code point, so the
  model covers the strings whose code points are below 256 (ASCII and the Latin-1 block).
  The character classes below are those of CPython for these code points: \<open>isspace\<close> is the
  class \<open>\s\<close> of \<open>re\<close> (and what \<open>str.strip()\<close> removes), \<open>isword\<close> is the class \<open>\w\<close>,
  \<open>lower_char\<close> is \<open>str.lower()\<close> on one character (it never changes the length there).
\<close>

definition isspace :: "char \<Rightarrow> bool" where
  "isspace c =
     (let n = (of_char c :: nat)
      in (9 \<le> n \<and> n \<le> 13) \<or> (28 \<le> n \<and> n \<le> 32) \<or> n = 133 \<or> n = 160)"

definition isword :: "char \<Rightarrow> bool" where
  "isword c =
     (let n = (of_char c :: nat)
      in (48 \<le> n \<and> n \<le> 57) \<or> (65 \<le> n \<and> n \<le> 90) \<or> n = 95 \<or> (97 \<le> n \<and> n \<le> 122)
         \<or> n = 170 \<or> n = 178 \<or> n = 179 \<or> n = 181 \<or> n = 185 \<or> n = 186
         \<or> (188 \<le> n \<and> n \<le> 190) \<or> (192 \<le> n \<and> n \<le> 214) \<or> (216 \<le> n \<and> n \<le> 246)
         \<or> (248 \<le> n \<and> n \<le> 255))"

definition lower_char :: "char \<Rightarrow> char" where
  "lower_char c =
     (let n = (of_char c :: nat)
      in if (65 \<le> n \<and> n \<le> 90) \<or> (192 \<le> n \<and> n \<le> 214) \<or> (216 \<le> n \<and> n \<le> 222)
         then char_of (n + 32) else c)"

text \<open>\<open>s.lower()\<close>, \<open>s.strip()\<close>, \<open>s.startswith(p)\<close> and \<open>k in s\<close>.\<close>

definition lower :: "string \<Rightarrow> string" where
  "lower s = map lower_char s"

text \<open>
  \<open>s.upper()\<close>, character by character: the sharp s (code point 223) becomes \<open>SS\<close>; the
  micro sign (181) and the y with diaeresis (255) become characters beyond code point 255,
  which the model does not hold (\<open>None\<close>).
\<close>

definition upper_char :: "char \<Rightarrow> string option" where
  "upper_char c =
     (let n = (of_char c :: nat)
      in if (97 \<le> n \<and> n \<le> 122) \<or> (224 \<le> n \<and> n \<le> 246) \<or> (248 \<le> n \<and> n \<le> 254)
         then Some [char_of (n - 32)]
         else if n = 223 then Some ''SS''
         else if n = 181 \<or> n = 255 then None
         else Some [c])"

fun upper :: "string \<Rightarrow> string option" where
  "upper [] = Some []"
| "upper (c # cs) =
     (case upper_char c of
        None \<Rightarrow> None
      | Some u \<Rightarrow> (case upper cs of None \<Rightarrow> None | Some us \<Rightarrow> Some (u @ us)))"

definition strip :: "string \<Rightarrow> string" where
  "strip s = rev (dropWhile isspace (rev (dropWhile isspace s)))"

definition startswith :: "string \<Rightarrow> string \<Rightarrow> bool" where
  "startswith s p = prefix p s"

fun contains :: "string \<Rightarrow> string \<Rightarrow> bool" where
  "contains k [] = (k = [])"
| "contains k (c # cs) = (prefix k (c # cs) \<or> contains k cs)"

section \<open>utils/validators.py\<close>

text \<open>\<open>re.sub(r'\s+', ' ', text)\<close>: every maximal run of whitespace becomes one space.\<close>

function sub_whitespace :: "string \<Rightarrow> string" where
  "sub_whitespace [] = []"
| "sub_whitespace (c # cs) =
     (if isspace c then CHR '' '' # sub_whitespace (dropWhile isspace cs)
      else c # sub_whitespace cs)"
  by pat_completeness auto
termination
  by (relation "measure length") (auto simp: length_dropWhile_le less_Suc_eq_le)

text \<open>
  The characters the class \<open>[^\w\s\-.,!?\'\"()]\<close> does not match, that is, those
  \<open>re.sub(r'[^\w\s\-.,!?\'\"()]', '', text)\<close> keeps.
\<close>

definition kept_punct :: "char list" where
  "kept_punct = [CHR ''-'', CHR ''.'', CHR '','', CHR ''!'', CHR ''?'', CHR 0x27, CHR 0x22,
                 CHR ''('', CHR '')'']"

definition kept_char :: "char \<Rightarrow> bool" where
  "kept_char c = (isword c \<or> isspace c \<or> c \<in> set kept_punct)"

definition sub_special :: "string \<Rightarrow> string" where
  "sub_special text = filter kept_char text"

definition clean_text :: "string \<Rightarrow> string" where
  "clean_text text =
     (if text = [] then []
      else let text = sub_whitespace text;
               text = strip text;
               text = sub_special text
           in text)"

definition extract_keywords :: "string \<Rightarrow> string list \<Rightarrow> string list" where
  "extract_keywords text keyword_list =
     (if text = [] then []
      else let text_lower = lower text
           in filter (\<lambda>kw. contains (lower kw) text_lower) keyword_list)"

section \<open>models/state.py\<close>

text \<open>
  The values a state holds: \<open>None\<close>, a \<open>str\<close>, a \<open>bool\<close>, a \<open>float\<close> (written as the
  decimal literal of the source) and a list of strings. \<open>AgentState\<close> is a
  \<open>TypedDict\<close> with \<open>total=False\<close>: a dictionary in which every key may be missing, and
  a key that is present may hold \<open>None\<close>. A node returns a dictionary of the keys it sets.
\<close>

datatype pyval = PNone | PStr string | PBool bool | PFloat real | PList "string list"

type_synonym AgentState = "string \<rightharpoonup> pyval"

datatype exn =
    AttributeError string
  | TypeError string
  | ValidationError string
  | ValueError string
  | ExternalError string

text \<open>\<open>str(e)\<close>.\<close>

fun exn_str :: "exn \<Rightarrow> string" where
  "exn_str (AttributeError m) = m"
| "exn_str (TypeError m) = m"
| "exn_str (ValidationError m) = m"
| "exn_str (ValueError m) = m"
| "exn_str (ExternalError m) = m"

text \<open>\<open>bool(v)\<close>, the test of \<open>if v:\<close> and \<open>not v\<close>.\<close>

fun truthy :: "pyval \<Rightarrow> bool" where
  "truthy PNone = False"
| "truthy (PStr s) = (s \<noteq> [])"
| "truthy (PBool b) = b"
| "truthy (PFloat r) = (r \<noteq> 0)"
| "truthy (PList xs) = (xs \<noteq> [])"

fun type_name :: "pyval \<Rightarrow> string" where
  "type_name PNone = ''NoneType''"
| "type_name (PStr s) = ''str''"
| "type_name (PBool b) = ''bool''"
| "type_name (PFloat r) = ''float''"
| "type_name (PList xs) = ''list''"

text \<open>\<open>d.get(k)\<close> and \<open>d.get(k, default)\<close>: the default is returned for a missing key only.\<close>

definition dict_get :: "AgentState \<Rightarrow> string \<Rightarrow> pyval" where
  "dict_get d k = (case d k of None \<Rightarrow> PNone | Some v \<Rightarrow> v)"

definition dict_get_default :: "AgentState \<Rightarrow> string \<Rightarrow> pyval \<Rightarrow> pyval" where
  "dict_get_default d k dflt = (case d k of None \<Rightarrow> dflt | Some v \<Rightarrow> v)"

text \<open>\<open>v.lower()\<close>: only a \<open>str\<close> has the method.\<close>

definition attr_lower :: "pyval \<Rightarrow> exn + string" where
  "attr_lower v =
     (case v of
        PStr s \<Rightarrow> Inr (lower s)
      | _ \<Rightarrow> Inl (AttributeError
               ([CHR 0x27] @ type_name v @ [CHR 0x27] @ '' object has no attribute 'lower'' @
                [CHR 0x27])))"

text \<open>
  \<open>clean_text(v)\<close> on the value of a state: \<open>re.sub\<close> raises \<open>TypeError\<close> on a value
  that is true and not a \<open>str\<close> (the message is that of CPython 3.11).
\<close>

definition clean_text_value :: "pyval \<Rightarrow> exn + string" where
  "clean_text_value v =
     (case v of
        PStr s \<Rightarrow> Inr (clean_text s)
      | _ \<Rightarrow> if \<not> truthy v then Inr []
             else Inl (TypeError (''expected string or bytes-like object, got '' @
                                  [CHR 0x27] @ type_name v @ [CHR 0x27])))"

section \<open>config/settings.py\<close>

definition MAINTENANCE_KEYWORDS :: "string list" where
  "MAINTENANCE_KEYWORDS =
     [''crack'', ''leak'', ''damage'', ''broken'', ''mold'', ''mould'',
      ''wall'', ''ceiling'', ''paint'', ''floor'', ''window'', ''door'',
      ''water'', ''damp'', ''stain'', ''peeling'', ''fixture'', ''plumbing'']"

definition TENANCY_KEYWORDS :: "string list" where
  "TENANCY_KEYWORDS =
     [''landlord'', ''tenant'', ''rent'', ''deposit'', ''evict'', ''eviction'',
      ''lease'', ''contract'', ''notice'', ''agreement'', ''rental'',
      ''tenancy'', ''security deposit'', ''vacate'', ''termination'']"

section \<open>agents/router.py\<close>

definition classify_input :: "AgentState \<Rightarrow> exn + AgentState" where
  "classify_input state =
     (let image_path = dict_get state ''image_path'';
          text_query = dict_get state ''text_query''
      in case (if truthy text_query
               then (case clean_text_value text_query of
                       Inl e \<Rightarrow> Inl e
                     | Inr cleaned \<Rightarrow> Inr (if cleaned = [] then PNone else PStr cleaned))
               else Inr text_query) of
           Inl e \<Rightarrow> Inl e
         | Inr text_query \<Rightarrow>
             let input_type =
                   (if truthy image_path \<and> \<not> truthy text_query then ''image_only''
                    else if truthy text_query \<and> \<not> truthy image_path then ''text_only''
                    else if truthy text_query \<and> truthy image_path then ''text_and_image''
                    else ''error'')
             in Inr [''input_type'' \<mapsto> PStr input_type, ''text_query'' \<mapsto> text_query])"

definition question_indicators :: "string list" where
  "question_indicators =
     [''how'', ''what'', ''when'', ''where'', ''why'', ''can'', ''should'', ''is'', ''are'',
      ''do'', ''does'']"

definition route_to_agent :: "AgentState \<Rightarrow> exn + string" where
  "route_to_agent state =
     (let input_type = dict_get_default state ''input_type'' (PStr ''error'')
      in case attr_lower (dict_get_default state ''text_query'' (PStr [])) of
           Inl e \<Rightarrow> Inl e
         | Inr text_query \<Rightarrow>
             if input_type = PStr ''error'' then Inr ''error''
             else if input_type = PStr ''image_only'' then Inr ''agent_1_vision''
             else if input_type = PStr ''text_and_image'' then Inr ''agent_1_vision''
             else if input_type = PStr ''text_only'' then
               (let maintenance_kw = extract_keywords text_query MAINTENANCE_KEYWORDS;
                    tenancy_kw = extract_keywords text_query TENANCY_KEYWORDS
                in if tenancy_kw \<noteq> [] then Inr ''agent_2_faq''
                   else if maintenance_kw \<noteq> [] then Inr ''clarification''
                   else let is_question =
                              (list_ex (\<lambda>indicator. startswith (strip text_query) indicator)
                                 question_indicators
                               \<or> contains ''?'' text_query)
                        in if is_question then Inr ''agent_2_faq'' else Inr ''clarification'')
             else Inr ''error'')"

section \<open>agents/prompts.py\<close>

definition CLARIFICATION_PROMPT :: string where
  "CLARIFICATION_PROMPT =
     ''I'd be happy to help you with property maintenance and troubleshooting!'' @ [CHR 0x0A] @
     [CHR 0x0A] @
     ''To provide you with the most accurate assessment, I need to see the issue. Could you please:'' @ [CHR 0x0A] @
     [CHR 0x0A] @
     ''1. **Upload a clear photo** of the problem area'' @ [CHR 0x0A] @
     ''2. **Describe the issue** you're experiencing'' @ [CHR 0x0A] @
     ''3. **Mention** when you first noticed it'' @ [CHR 0x0A] @
     [CHR 0x0A] @
     ''This will help me give you specific, actionable advice for your property concern.'' @ [CHR 0x0A] @
     [CHR 0x0A] @
     ''What issue are you experiencing with your property?''"

text \<open>\<open>ERROR_MESSAGES['no_input']\<close>.\<close>

definition ERROR_MESSAGES_no_input :: string where
  "ERROR_MESSAGES_no_input =
     ''I didn't receive any input. Please provide either a question or upload an image.''"

section \<open>External capabilities\<close>

text \<open>
  What the handlers call outside the repository's own logic is a parameter of the model:
  \<^item> \<open>validate_image\<close> (utils/image_utils.py reads the file): \<open>None\<close> for the result
    \<open>(True, None)\<close>, \<open>Some msg\<close> for \<open>(False, msg)\<close>; it catches its own exceptions;
  \<^item> \<open>encode_image\<close>: the base64 text, or the exception it raises;
  \<^item> \<open>vision_model_invoke query image\<close>: \<open>self.model.invoke(messages).content\<close> of the
    vision agent, whose messages are built from the fixed prompts, the query and the encoded
    image, or the exception raised;
  \<^item> \<open>text_model_invoke query location\<close>: the same for the FAQ agent, whose messages are
    built from the fixed prompts, the query and the location;
  \<^item> \<open>set_iteration\<close>: the order in which \<open>list(set(xs))\<close> lists the elements.
\<close>

record Env =
  validate_image :: "pyval \<Rightarrow> string option"
  encode_image :: "pyval \<Rightarrow> exn + string"
  vision_model_invoke :: "pyval \<Rightarrow> pyval \<Rightarrow> exn + string"
  text_model_invoke :: "pyval \<Rightarrow> pyval \<Rightarrow> exn + string"
  set_iteration :: "string list \<Rightarrow> string list"

text \<open>\<open>s.split(d)\<close> for a separator of one character.\<close>

fun split_on :: "char \<Rightarrow> string \<Rightarrow> string list" where
  "split_on d [] = [[]]"
| "split_on d (c # cs) =
     (if c = d then [] # split_on d cs
      else (case split_on d cs of
              [] \<Rightarrow> [[c]]
            | x # xs \<Rightarrow> (c # x) # xs))"

text \<open>
  The body shared by \<open>VisionAgent._extract_suggestions\<close> and
  \<open>FAQAgent._extract_suggestions\<close>, which differ in their marker words.
\<close>

definition extract_suggestions :: "string list \<Rightarrow> string \<Rightarrow> string list" where
  "extract_suggestions markers response_text =
     (let lines = split_on (CHR 0x0A) response_text
      in take 5
           (filter
              (\<lambda>line. list_ex (\<lambda>marker. contains marker (lower line)) markers
                      \<and> length line > 20 \<and> length line < 200)
              (map strip lines)))"

section \<open>agents/vision_agent.py\<close>

definition VisionAgent_error_response :: "string \<Rightarrow> AgentState" where
  "VisionAgent_error_response error_message =
     [''agent_response'' \<mapsto> PStr error_message,
      ''agent_used'' \<mapsto> PStr ''agent_1_vision'',
      ''error_message'' \<mapsto> PStr error_message,
      ''error_type'' \<mapsto> PStr ''VisionAgentError'',
      ''needs_clarification'' \<mapsto> PBool True]"

definition VisionAgent_extract_issues :: "Env \<Rightarrow> string \<Rightarrow> string list" where
  "VisionAgent_extract_issues env response_text =
     (let issue_keywords =
            [''crack'', ''leak'', ''damage'', ''mold'', ''mould'', ''stain'',
             ''broken'', ''deterioration'', ''corrosion'', ''damp''];
          issues = filter (\<lambda>keyword. contains keyword (lower response_text)) issue_keywords
      in take 5 (set_iteration env issues))"

definition VisionAgent_extract_suggestions :: "string \<Rightarrow> string list" where
  "VisionAgent_extract_suggestions response_text =
     extract_suggestions [''recommend'', ''should'', ''suggest'', ''contact'', ''call'']
       response_text"

text \<open>
  The body of the \<open>try\<close> of \<open>VisionAgent.process\<close>: \<open>Inl\<close> is an exception that reaches
  the \<open>except\<close> of \<open>process\<close>; the inner \<open>try\<close> around \<open>encode_image\<close> returns its
  own error response.
\<close>

definition VisionAgent_process_try :: "Env \<Rightarrow> AgentState \<Rightarrow> exn + AgentState" where
  "VisionAgent_process_try env state =
     (let image_path = dict_get state ''image_path''
      in if \<not> truthy image_path then Inr (VisionAgent_error_response ''No image provided'')
         else case validate_image env image_path of
                Some error_msg \<Rightarrow> Inr (VisionAgent_error_response error_msg)
              | None \<Rightarrow>
                  (case (if \<not> truthy (dict_get state ''base64_image'')
                         then (case encode_image env image_path of
                                 Inl e \<Rightarrow>
                                   Inl (VisionAgent_error_response
                                          (''Failed to process image: '' @ exn_str e))
                               | Inr encoded \<Rightarrow> Inr (PStr encoded))
                         else Inr (dict_get state ''base64_image'')) of
                     Inl error_response \<Rightarrow> Inr error_response
                   | Inr base64_image \<Rightarrow>
                       let user_query =
                             dict_get_default state ''text_query''
                               (PStr ''Please analyze this property image and identify any issues.'')
                       in case vision_model_invoke env user_query base64_image of
                            Inl e \<Rightarrow> Inl e
                          | Inr content \<Rightarrow>
                              Inr [''agent_response'' \<mapsto> PStr content,
                                   ''agent_used'' \<mapsto> PStr ''agent_1_vision'',
                                   ''base64_image'' \<mapsto> base64_image,
                                   ''detected_issues'' \<mapsto>
                                     PList (VisionAgent_extract_issues env content),
                                   ''suggestions'' \<mapsto>
                                     PList (VisionAgent_extract_suggestions content),
                                   ''confidence_score'' \<mapsto> PFloat 0.85,
                                   ''needs_clarification'' \<mapsto> PBool False]))"

definition VisionAgent_process :: "Env \<Rightarrow> AgentState \<Rightarrow> AgentState" where
  "VisionAgent_process env state =
     (case VisionAgent_process_try env state of
        Inr result \<Rightarrow> result
      | Inl e \<Rightarrow> VisionAgent_error_response (''Error analyzing image: '' @ exn_str e))"

section \<open>agents/faq_agent.py\<close>

definition FAQAgent_error_response :: "string \<Rightarrow> AgentState" where
  "FAQAgent_error_response error_message =
     [''agent_response'' \<mapsto> PStr error_message,
      ''agent_used'' \<mapsto> PStr ''agent_2_faq'',
      ''error_message'' \<mapsto> PStr error_message,
      ''error_type'' \<mapsto> PStr ''FAQAgentError'',
      ''needs_clarification'' \<mapsto> PBool True]"

definition FAQAgent_check_needs_location :: "string \<Rightarrow> pyval \<Rightarrow> bool" where
  "FAQAgent_check_needs_location response user_location =
     (if truthy user_location then False
      else let location_indicators =
                 [''location'', ''jurisdiction'', ''state'', ''country'',
                  ''where you live'', ''your area'', ''depends on'']
           in list_ex (\<lambda>indicator. contains indicator (lower response)) location_indicators)"

definition FAQAgent_extract_suggestions :: "string \<Rightarrow> string list" where
  "FAQAgent_extract_suggestions response_text =
     extract_suggestions
       [''should'', ''recommend'', ''consider'', ''contact'', ''document'', ''keep'', ''file'']
       response_text"

definition FAQAgent_process_try :: "Env \<Rightarrow> AgentState \<Rightarrow> exn + AgentState" where
  "FAQAgent_process_try env state =
     (let user_query = dict_get_default state ''text_query'' (PStr [])
      in if \<not> truthy user_query then Inr (FAQAgent_error_response ''No question provided'')
         else let user_location = dict_get_default state ''user_location'' (PStr [])
              in case text_model_invoke env user_query user_location of
                   Inl e \<Rightarrow> Inl e
                 | Inr content \<Rightarrow>
                     let needs_clarification =
                           FAQAgent_check_needs_location content user_location;
                         suggestions = FAQAgent_extract_suggestions content
                     in Inr [''agent_response'' \<mapsto> PStr content,
                             ''agent_used'' \<mapsto> PStr ''agent_2_faq'',
                             ''suggestions'' \<mapsto> PList suggestions,
                             ''confidence_score'' \<mapsto> PFloat 0.9,
                             ''needs_clarification'' \<mapsto> PBool needs_clarification])"

definition FAQAgent_process :: "Env \<Rightarrow> AgentState \<Rightarrow> AgentState" where
  "FAQAgent_process env state =
     (case FAQAgent_process_try env state of
        Inr result \<Rightarrow> result
      | Inl e \<Rightarrow> FAQAgent_error_response (''Error processing question: '' @ exn_str e))"

section \<open>models/inputs.py and models/outputs.py\<close>

record UserQuery =
  text_query :: "string option"
  image_path :: "string option"
  user_location :: "string option"

text \<open>
  \<open>UserQuery(text_query=t, image_path=i, user_location=l)\<close>: the field validators and
  \<open>model_post_init\<close>. The checks of the image file (it exists, its format, its size) read
  the file system and are the parameter \<open>image_check\<close>, which gives the message of the
  error raised, if any.
\<close>

definition validate_text_query :: "string option \<Rightarrow> exn + string option" where
  "validate_text_query v =
     (case v of
        None \<Rightarrow> Inr None
      | Some v \<Rightarrow>
          let v = strip v
          in if length v = 0 then Inr None
             else if length v > 1000
             then Inl (ValidationError ''Text query must be less than 1000 characters'')
             else Inr (Some v))"

definition validate_image_path :: "(string \<Rightarrow> string option) \<Rightarrow> string option \<Rightarrow> exn + string option" where
  "validate_image_path image_check v =
     (case v of
        None \<Rightarrow> Inr None
      | Some v \<Rightarrow>
          (case image_check v of
             Some msg \<Rightarrow> Inl (ValidationError msg)
           | None \<Rightarrow> Inr (Some v)))"

definition validate_location :: "string option \<Rightarrow> string option" where
  "validate_location v =
     (case v of
        None \<Rightarrow> None
      | Some v \<Rightarrow> let v = strip v in if length v = 0 then None else Some v)"

definition UserQuery_init ::
  "(string \<Rightarrow> string option) \<Rightarrow> string option \<Rightarrow> string option \<Rightarrow> string option
   \<Rightarrow> exn + UserQuery" where
  "UserQuery_init image_check t i l =
     (case validate_text_query t of
        Inl e \<Rightarrow> Inl e
      | Inr t \<Rightarrow>
          (case validate_image_path image_check i of
             Inl e \<Rightarrow> Inl e
           | Inr i \<Rightarrow>
               if (t = None \<or> t = Some []) \<and> (i = None \<or> i = Some [])
               then Inl (ValidationError ''Must provide either text_query or image_path'')
               else Inr \<lparr>text_query = t, image_path = i,
                         user_location = validate_location l\<rparr>))"

record AgentResponse =
  response :: string
  agent_used :: string
  needs_clarification :: bool
  detected_issues :: "string list option"
  confidence_score :: "real option"
  suggestions :: "string list option"

text \<open>
  \<open>AgentResponse(response=.., agent_used=.., ..)\<close> on values read from the final state:
  the checks of the declared field types, of the four literals of \<open>agent_used\<close> and of the
  bounds of \<open>confidence_score\<close>. The conversions pydantic applies to a value of another type
  are not modelled (such a value is rejected here), and neither is the text of its message.
\<close>

definition str_field :: "pyval \<Rightarrow> exn + string" where
  "str_field v =
     (case v of
        PStr x \<Rightarrow> Inr x
      | _ \<Rightarrow> Inl (ValidationError ''validation error for AgentResponse''))"

definition agent_used_field :: "pyval \<Rightarrow> exn + string" where
  "agent_used_field v =
     (case v of
        PStr x \<Rightarrow>
          if x \<in> set [''agent_1_vision'', ''agent_2_faq'', ''clarification'', ''error'']
          then Inr x
          else Inl (ValidationError ''validation error for AgentResponse'')
      | _ \<Rightarrow> Inl (ValidationError ''validation error for AgentResponse''))"

definition bool_field :: "pyval \<Rightarrow> exn + bool" where
  "bool_field v =
     (case v of
        PBool x \<Rightarrow> Inr x
      | _ \<Rightarrow> Inl (ValidationError ''validation error for AgentResponse''))"

definition opt_str_list_field :: "pyval \<Rightarrow> exn + string list option" where
  "opt_str_list_field v =
     (case v of
        PNone \<Rightarrow> Inr None
      | PList xs \<Rightarrow> Inr (Some xs)
      | _ \<Rightarrow> Inl (ValidationError ''validation error for AgentResponse''))"

definition confidence_score_field :: "pyval \<Rightarrow> exn + real option" where
  "confidence_score_field v =
     (case v of
        PNone \<Rightarrow> Inr None
      | PFloat x \<Rightarrow>
          if 0.0 \<le> x \<and> x \<le> 1.0 then Inr (Some x)
          else Inl (ValidationError ''validation error for AgentResponse'')
      | _ \<Rightarrow> Inl (ValidationError ''validation error for AgentResponse''))"

definition AgentResponse_init ::
  "pyval \<Rightarrow> pyval \<Rightarrow> pyval \<Rightarrow> pyval \<Rightarrow> pyval \<Rightarrow> pyval \<Rightarrow> exn + AgentResponse" where
  "AgentResponse_init r a n d c s =
     (case str_field r of
        Inl e \<Rightarrow> Inl e
      | Inr r \<Rightarrow>
     (case agent_used_field a of
        Inl e \<Rightarrow> Inl e
      | Inr a \<Rightarrow>
     (case bool_field n of
        Inl e \<Rightarrow> Inl e
      | Inr n \<Rightarrow>
     (case opt_str_list_field d of
        Inl e \<Rightarrow> Inl e
      | Inr d \<Rightarrow>
     (case confidence_score_field c of
        Inl e \<Rightarrow> Inl e
      | Inr c \<Rightarrow>
     (case opt_str_list_field s of
        Inl e \<Rightarrow> Inl e
      | Inr s \<Rightarrow>
          Inr \<lparr>response = r, agent_used = a, needs_clarification = n,
               detected_issues = d, confidence_score = c, suggestions = s\<rparr>))))))"

text \<open>What the declaration of \<open>AgentResponse\<close> demands of every instance.\<close>

definition well_formed :: "AgentResponse \<Rightarrow> bool" where
  "well_formed r =
     (agent_used r \<in> set [''agent_1_vision'', ''agent_2_faq'', ''clarification'', ''error'']
      \<and> (case confidence_score r of None \<Rightarrow> True | Some c \<Rightarrow> 0.0 \<le> c \<and> c \<le> 1.0))"

section \<open>graph/workflow.py\<close>

definition agent_1_vision_node :: "Env \<Rightarrow> AgentState \<Rightarrow> AgentState" where
  "agent_1_vision_node env state = VisionAgent_process env state"

definition agent_2_faq_node :: "Env \<Rightarrow> AgentState \<Rightarrow> AgentState" where
  "agent_2_faq_node env state = FAQAgent_process env state"

definition clarification_node :: "AgentState \<Rightarrow> AgentState" where
  "clarification_node state =
     [''agent_response'' \<mapsto> PStr CLARIFICATION_PROMPT,
      ''agent_used'' \<mapsto> PStr ''clarification'',
      ''needs_clarification'' \<mapsto> PBool True,
      ''confidence_score'' \<mapsto> PFloat 1.0]"

definition error_node :: "AgentState \<Rightarrow> AgentState" where
  "error_node state =
     (let error_msg = dict_get state ''error_message'';
          error_msg = (if \<not> truthy error_msg then PStr ERROR_MESSAGES_no_input else error_msg)
      in [''agent_response'' \<mapsto> error_msg,
          ''agent_used'' \<mapsto> PStr ''error'',
          ''error_message'' \<mapsto> error_msg,
          ''error_type'' \<mapsto> dict_get_default state ''error_type'' (PStr ''UnknownError''),
          ''needs_clarification'' \<mapsto> PBool True])"

text \<open>
  The graph of \<open>create_workflow\<close>: \<open>START \<rightarrow> classify_input\<close>, the conditional edges that
  send the result of \<open>route_to_agent\<close> to the node of the same name, and every such node
  \<open>\<rightarrow> END\<close>. \<open>workflow_invoke\<close> is \<open>self.workflow.invoke(input_dict)\<close>: the dictionary a node
  returns is written into the state key by key (a key set to \<open>None\<close> is written as
  \<open>None\<close>), the router reads the state so updated, an exception raised by a node or by
  the router ends the run and reaches the caller, and the result is the final state.
\<close>

definition conditional_edges :: "Env \<Rightarrow> string \<Rightarrow> (AgentState \<Rightarrow> AgentState) option" where
  "conditional_edges env =
     [''agent_1_vision'' \<mapsto> agent_1_vision_node env,
      ''agent_2_faq'' \<mapsto> agent_2_faq_node env,
      ''clarification'' \<mapsto> clarification_node,
      ''error'' \<mapsto> error_node]"

definition workflow_invoke :: "Env \<Rightarrow> AgentState \<Rightarrow> exn + AgentState" where
  "workflow_invoke env input_dict =
     (case classify_input input_dict of
        Inl e \<Rightarrow> Inl e
      | Inr update \<Rightarrow>
          let state = input_dict ++ update
          in case route_to_agent state of
               Inl e \<Rightarrow> Inl e
             | Inr destination \<Rightarrow>
                 (case conditional_edges env destination of
                    None \<Rightarrow> Inl (ExternalError ''unknown destination'')
                  | Some node \<Rightarrow> Inr (state ++ node state)))"

text \<open>\<open>user_input.model_dump(exclude_none=True)\<close>.\<close>

definition dump_field :: "string \<Rightarrow> string option \<Rightarrow> AgentState" where
  "dump_field k v = (case v of None \<Rightarrow> Map.empty | Some s \<Rightarrow> [k \<mapsto> PStr s])"

definition model_dump :: "UserQuery \<Rightarrow> AgentState" where
  "model_dump user_input =
     dump_field ''text_query'' (text_query user_input)
       ++ dump_field ''image_path'' (image_path user_input)
       ++ dump_field ''user_location'' (user_location user_input)"

text \<open>
  The dictionary \<open>process_query\<close> hands to the workflow: the dump of the query and an
  empty list of messages.
\<close>

definition input_dict_of :: "UserQuery \<Rightarrow> AgentState" where
  "input_dict_of user_input =
     (let input_dict = model_dump user_input
      in if input_dict ''messages'' = None
         then input_dict(''messages'' \<mapsto> PList []) else input_dict)"

text \<open>The body of the \<open>try\<close> of \<open>RealEstateChatbot.process_query\<close>.\<close>

definition process_query_try :: "Env \<Rightarrow> UserQuery \<Rightarrow> exn + AgentResponse" where
  "process_query_try env user_input =
     (let input_dict = input_dict_of user_input
      in case workflow_invoke env input_dict of
           Inl e \<Rightarrow> Inl e
         | Inr result \<Rightarrow>
             AgentResponse_init
               (dict_get_default result ''agent_response'' (PStr ''No response generated''))
               (dict_get_default result ''agent_used'' (PStr ''error''))
               (dict_get_default result ''needs_clarification'' (PBool False))
               (dict_get result ''detected_issues'')
               (dict_get result ''confidence_score'')
               (dict_get result ''suggestions''))"

definition process_query :: "Env \<Rightarrow> UserQuery \<Rightarrow> AgentResponse" where
  "process_query env user_input =
     (case process_query_try env user_input of
        Inr resp \<Rightarrow> resp
      | Inl e \<Rightarrow>
          \<lparr>response = ''I encountered an error: '' @ exn_str e @ ''. Please try again.'',
           agent_used = ''error'',
           needs_clarification = True,
           detected_issues = None,
           confidence_score = Some 0.0,
           suggestions = None\<rparr>)"

section \<open>The specification's own notions\<close>

text \<open>
  The cascade of the specification for a text-only input, in its words: on the lower-cased
  text, a tenancy keyword occurring in it gives the FAQ agent; otherwise a maintenance
  keyword gives the clarification; otherwise a leading question word of the stripped text or
  a question mark gives the FAQ agent; otherwise the clarification.
\<close>

definition text_only_cascade :: "string \<Rightarrow> string" where
  "text_only_cascade text =
     (let t = lower text
      in if \<exists>kw \<in> set TENANCY_KEYWORDS. sublist kw t then ''agent_2_faq''
         else if \<exists>kw \<in> set MAINTENANCE_KEYWORDS. sublist kw t then ''clarification''
         else if (\<exists>w \<in> set [''how'', ''what'', ''when'', ''where'', ''why'', ''can'', ''should'',
                                 ''is'', ''are'', ''do'', ''does'']. prefix w (strip t))
                 \<or> CHR ''?'' \<in> set t
         then ''agent_2_faq''
         else ''clarification'')"

text \<open>
  The decision table of the specification for the shape, from whether an image and a text
  are present.
\<close>

definition decision_table :: "bool \<Rightarrow> bool \<Rightarrow> string" where
  "decision_table image_present text_present =
     (if image_present \<and> \<not> text_present then ''image_only''
      else if \<not> image_present \<and> text_present then ''text_only''
      else if image_present \<and> text_present then ''text_and_image''
      else ''error'')"

text \<open>An optional string as the value of a state.\<close>

definition opt_val :: "string option \<Rightarrow> pyval" where
  "opt_val v = (case v of None \<Rightarrow> PNone | Some s \<Rightarrow> PStr s)"

text \<open>The normalization of an optional text: nothing to normalize gives the empty text.\<close>

definition normalized :: "string option \<Rightarrow> string" where
  "normalized v = (case v of None \<Rightarrow> [] | Some s \<Rightarrow> clean_text s)"

text \<open>
  The result the specification demands when a handler fails: the handler of the attempted
  route, an explanatory message, and a request for clarification; the handler's other
  outputs are absent.
\<close>

definition handler_failure :: "string \<Rightarrow> string \<Rightarrow> AgentResponse" where
  "handler_failure handler message =
     \<lparr>response = message, agent_used = handler, needs_clarification = True,
      detected_issues = None, confidence_score = None, suggestions = None\<rparr>"

text \<open>
  A sample environment: every image is valid and encodes, and both model calls raise.
\<close>

definition failing_models :: Env where
  "failing_models =
     \<lparr>validate_image = (\<lambda>path. None),
      encode_image = (\<lambda>path. Inr ''QUJD''),
      vision_model_invoke = (\<lambda>query image. Inl (ExternalError ''rate limit'')),
      text_model_invoke = (\<lambda>query location. Inl (ExternalError ''timeout'')),
      set_iteration = (\<lambda>xs. xs)\<rparr>"

section \<open>Evaluation and basic facts\<close>

lemmas char_eval = lower_def lower_char_def char_of_def bit_0

lemmas text_eval = clean_text_def strip_def sub_special_def kept_char_def kept_punct_def
  isspace_def isword_def

lemmas router_eval = route_to_agent_def classify_input_def dict_get_def dict_get_default_def
  attr_lower_def clean_text_value_def

lemmas workflow_eval = process_query_def process_query_try_def input_dict_of_def model_dump_def
  dump_field_def workflow_invoke_def conditional_edges_def error_node_def clarification_node_def
  agent_1_vision_node_def agent_2_faq_node_def AgentResponse_init_def str_field_def
  agent_used_field_def bool_field_def opt_str_list_field_def confidence_score_field_def

lemma contains_iff_sublist: "contains k t = sublist k t"
  by (induction t) (auto simp: sublist_Cons_right)

lemma lower_char_idem: "lower_char (lower_char c) = lower_char c"
  by (simp add: lower_char_def Let_def)

lemma lower_idem: "lower (lower s) = lower s"
  by (simp add: lower_def lower_char_idem)

lemma lower_Nil_iff: "(lower s = []) = (s = [])"
  by (simp add: lower_def)

lemma extract_keywords_filter:
  "text \<noteq> [] \<Longrightarrow>
   extract_keywords text kws = filter (\<lambda>kw. sublist (lower kw) (lower text)) kws"
  by (simp add: extract_keywords_def contains_iff_sublist)

lemma extract_keywords_lower:
  "lower t = lower t' \<Longrightarrow> extract_keywords t kws = extract_keywords t' kws"
proof -
  assume h: "lower t = lower t'"
  then have "(t = []) = (t' = [])" by (metis lower_Nil_iff)
  with h show ?thesis by (simp add: extract_keywords_def)
qed

section \<open>The keyword matcher\<close>

text \<open>
  C7, as claimed: case variants of a text give the same matches. The upper-casing of the
  sharp s followed by \<open>tain\<close> is \<open>SSTAIN\<close>, in which the keyword \<open>stain\<close> occurs once
  lower-cased; it does not occur in the text itself.
\<close>

theorem extract_keywords_upper_case_differs:
  "upper (CHR 0xDF # ''tain'') = Some ''SSTAIN''
   \<and> extract_keywords (CHR 0xDF # ''tain'') MAINTENANCE_KEYWORDS = []
   \<and> extract_keywords ''SSTAIN'' MAINTENANCE_KEYWORDS = [''stain'']"
  by (simp add: upper_char_def extract_keywords_def MAINTENANCE_KEYWORDS_def char_eval)

text \<open>
  C7, amended. For every text and keyword list, \<open>extract_keywords\<close> returns exactly the
  keywords whose lower-cased form occurs as a contiguous substring of the lower-cased text,
  in the order of the keyword list (a multi-word keyword is one literal substring; nothing
  is tokenized); the empty text yields the empty result; and two texts with the same
  lower-casing, such as \<open>LANDLORD\<close> and \<open>landlord\<close>, yield the same result.
\<close>

theorem extract_keywords_matches:
  "(text \<noteq> [] \<longrightarrow>
      extract_keywords text keyword_list
        = filter (\<lambda>kw. sublist (lower kw) (lower text)) keyword_list)
   \<and> extract_keywords [] keyword_list = []
   \<and> (lower text = lower text' \<longrightarrow>
        extract_keywords text keyword_list = extract_keywords text' keyword_list)"
proof (intro conjI impI)
  assume "text \<noteq> []"
  then show "extract_keywords text keyword_list
        = filter (\<lambda>kw. sublist (lower kw) (lower text)) keyword_list"
    by (rule extract_keywords_filter)
next
  show "extract_keywords [] keyword_list = []"
    by (simp add: extract_keywords_def)
next
  assume "lower text = lower text'"
  then show "extract_keywords text keyword_list = extract_keywords text' keyword_list"
    by (rule extract_keywords_lower)
qed

theorem extract_keywords_matches_witness:
  "''LANDLORD'' \<noteq> [] \<and> lower ''LANDLORD'' = lower ''landlord''
   \<and> extract_keywords ''LANDLORD'' [''rent'', ''Landlord'', ''security deposit'']
       = filter (\<lambda>kw. sublist (lower kw) (lower ''LANDLORD''))
           [''rent'', ''Landlord'', ''security deposit'']
   \<and> extract_keywords ''LANDLORD'' [''rent'', ''Landlord'', ''security deposit'']
       = extract_keywords ''landlord'' [''rent'', ''Landlord'', ''security deposit'']"
proof -
  have h1: "''LANDLORD'' \<noteq> []" by simp
  have h2: "lower ''LANDLORD'' = lower ''landlord''" by (simp add: char_eval)
  from h1 h2
    extract_keywords_matches [of "''LANDLORD''" "[''rent'', ''Landlord'', ''security deposit'']"
      "''landlord''"]
  show ?thesis by blast
qed

section \<open>The text normalizer\<close>

text \<open>
  C6. The claim is that the result of \<open>clean_text\<close> has every run of whitespace collapsed
  to one space and no leading or trailing whitespace. The function collapses and strips
  first and removes the other characters last, so the whitespace on both sides of a removed
  character stays: \<open>a @ b\<close> becomes \<open>a\<close>, two spaces, \<open>b\<close>, and \<open>@ a\<close> becomes a
  space and \<open>a\<close>.
\<close>

theorem clean_text_keeps_whitespace_around_removed:
  "clean_text ''a @ b'' = ''a  b'' \<and> clean_text ''@ a'' = '' a''"
  by (simp add: text_eval)

section \<open>The router on the states the classifier produces\<close>

text \<open>
  C1. The claim is that the router sends every state produced by the classification to
  \<open>error\<close> for the shape \<open>error\<close> and to the vision agent for the shapes with an image.
  For a request with an image and no text, \<open>classify_input\<close> sets \<open>text_query\<close> to
  \<open>None\<close>; in the state so updated \<open>state.get('text_query', '')\<close> is \<open>None\<close>, and
  \<open>route_to_agent\<close> raises \<open>AttributeError\<close> at \<open>.lower()\<close> before it looks at the shape.
\<close>

theorem route_after_classify_image_only:
  "classify_input [''image_path'' \<mapsto> PStr ''/some/path.jpg'']
     = Inr [''input_type'' \<mapsto> PStr ''image_only'', ''text_query'' \<mapsto> PNone]
   \<and> route_to_agent
         ([''image_path'' \<mapsto> PStr ''/some/path.jpg'']
            ++ [''input_type'' \<mapsto> PStr ''image_only'', ''text_query'' \<mapsto> PNone])
       = Inl (AttributeError
               ([CHR 0x27] @ ''NoneType' object has no attribute 'lower'' @ [CHR 0x27]))"
  by (simp add: router_eval)

text \<open>
  C4. The claim is that the router is total on its declared domain, a shape among the four
  and an optional text. With the text \<open>None\<close>, which is what the classifier writes for a
  request without text, \<open>route_to_agent\<close> raises \<open>AttributeError\<close> whatever the shape.
\<close>

theorem route_to_agent_none_text:
  "route_to_agent [''input_type'' \<mapsto> PStr ''image_only'', ''text_query'' \<mapsto> PNone]
     = Inl (AttributeError
             ([CHR 0x27] @ ''NoneType' object has no attribute 'lower'' @ [CHR 0x27]))
   \<and> route_to_agent [''input_type'' \<mapsto> PStr ''error'', ''text_query'' \<mapsto> PNone]
     = Inl (AttributeError
             ([CHR 0x27] @ ''NoneType' object has no attribute 'lower'' @ [CHR 0x27]))"
  by (simp add: router_eval)

section \<open>The cascade for a text-only input\<close>

lemma contains_single: "contains [c] t = (c \<in> set t)"
  by (induction t) auto

lemma keywords_lower_nonempty:
  "\<forall>kw \<in> set TENANCY_KEYWORDS. lower kw = kw \<and> kw \<noteq> []"
  "\<forall>kw \<in> set MAINTENANCE_KEYWORDS. lower kw = kw \<and> kw \<noteq> []"
  by (simp_all add: TENANCY_KEYWORDS_def MAINTENANCE_KEYWORDS_def char_eval)

lemma extract_keywords_nonempty_iff:
  assumes "\<forall>kw \<in> set kws. lower kw = kw \<and> kw \<noteq> []"
  shows "(extract_keywords (lower text) kws \<noteq> []) = (\<exists>kw \<in> set kws. sublist kw (lower text))"
proof (cases "text = []")
  case True
  with assms show ?thesis by (auto simp: extract_keywords_def lower_def)
next
  case False
  then have "lower text \<noteq> []" by (simp add: lower_Nil_iff)
  then have "extract_keywords (lower text) kws
               = filter (\<lambda>kw. sublist (lower kw) (lower text)) kws"
    by (simp add: extract_keywords_filter lower_idem)
  with assms show ?thesis by (auto simp: filter_empty_conv)
qed

text \<open>
  C2. For every state whose shape is \<open>text_only\<close> and whose text is a string, the router
  returns what the cascade of the specification gives on that text: a tenancy keyword wins
  (also over a maintenance keyword in the same text), then a maintenance keyword, then the
  question pattern, then the clarification.
\<close>

theorem route_text_only_cascade:
  assumes "state ''input_type'' = Some (PStr ''text_only'')"
      and "state ''text_query'' = Some (PStr text)"
  shows "route_to_agent state = Inr (text_only_cascade text)
         \<and> ((\<exists>kw \<in> set TENANCY_KEYWORDS. sublist kw (lower text))
              \<longrightarrow> route_to_agent state = Inr ''agent_2_faq'')"
  using assms
  by (simp add: route_to_agent_def text_only_cascade_def dict_get_default_def attr_lower_def
        extract_keywords_nonempty_iff [OF keywords_lower_nonempty(1)]
        extract_keywords_nonempty_iff [OF keywords_lower_nonempty(2)]
        list_ex_iff startswith_def contains_single question_indicators_def Let_def)

theorem route_text_only_cascade_witness:
  "[''input_type'' \<mapsto> PStr ''text_only'', ''text_query'' \<mapsto> PStr ''Landlord won't fix this leak'']
      ''input_type'' = Some (PStr ''text_only'')
   \<and> [''input_type'' \<mapsto> PStr ''text_only'', ''text_query'' \<mapsto> PStr ''Landlord won't fix this leak'']
      ''text_query'' = Some (PStr ''Landlord won't fix this leak'')
   \<and> (\<exists>kw \<in> set TENANCY_KEYWORDS. sublist kw (lower ''Landlord won't fix this leak''))
   \<and> (\<exists>kw \<in> set MAINTENANCE_KEYWORDS. sublist kw (lower ''Landlord won't fix this leak''))
   \<and> route_to_agent
        [''input_type'' \<mapsto> PStr ''text_only'', ''text_query'' \<mapsto> PStr ''Landlord won't fix this leak'']
      = Inr (text_only_cascade ''Landlord won't fix this leak'')
   \<and> route_to_agent
        [''input_type'' \<mapsto> PStr ''text_only'', ''text_query'' \<mapsto> PStr ''Landlord won't fix this leak'']
      = Inr ''agent_2_faq''"
proof -
  let ?s = "[''input_type'' \<mapsto> PStr ''text_only'',
             ''text_query'' \<mapsto> PStr ''Landlord won't fix this leak'']"
  have h1: "?s ''input_type'' = Some (PStr ''text_only'')" by simp
  have h2: "?s ''text_query'' = Some (PStr ''Landlord won't fix this leak'')" by simp
  have h3: "\<exists>kw \<in> set TENANCY_KEYWORDS. sublist kw (lower ''Landlord won't fix this leak'')"
    by (simp add: TENANCY_KEYWORDS_def contains_iff_sublist [symmetric] char_eval)
  have h4: "\<exists>kw \<in> set MAINTENANCE_KEYWORDS. sublist kw (lower ''Landlord won't fix this leak'')"
    by (simp add: MAINTENANCE_KEYWORDS_def contains_iff_sublist [symmetric] char_eval)
  from route_text_only_cascade [OF h1 h2] h1 h2 h3 h4 show ?thesis by blast
qed

section \<open>Letter case and dependence on the input\<close>

text \<open>
  C10, as claimed: the decision is the same for a text and any case variant of it. The
  upper-casing of \<open>i\<close> followed by the sharp s is \<open>ISS\<close>; the router lower-cases, which
  gives \<open>iss\<close> for the one and leaves the other, so the first is a question (it starts
  with \<open>is\<close>) and the second is not.
\<close>

theorem route_upper_case_differs:
  "upper [CHR ''i'', CHR 0xDF] = Some ''ISS''
   \<and> route_to_agent
         [''input_type'' \<mapsto> PStr ''text_only'', ''text_query'' \<mapsto> PStr [CHR ''i'', CHR 0xDF]]
       = Inr ''clarification''
   \<and> route_to_agent [''input_type'' \<mapsto> PStr ''text_only'', ''text_query'' \<mapsto> PStr ''ISS'']
       = Inr ''agent_2_faq''"
  by (simp add: upper_char_def router_eval extract_keywords_def MAINTENANCE_KEYWORDS_def
        TENANCY_KEYWORDS_def question_indicators_def startswith_def strip_def isspace_def
        char_eval)

text \<open>
  C10, amended. For every state, whatever its shape, replacing the text by a text with the
  same lower-casing does not change what the router returns.
\<close>

theorem route_case_invariant:
  assumes "lower t = lower t'"
  shows "route_to_agent (state(''text_query'' \<mapsto> PStr t))
           = route_to_agent (state(''text_query'' \<mapsto> PStr t'))"
  using assms by (simp add: route_to_agent_def dict_get_default_def attr_lower_def)

theorem route_case_invariant_witness:
  "lower ''CAN I PAINT?'' = lower ''can i Paint?''
   \<and> route_to_agent ([''input_type'' \<mapsto> PStr ''text_only''](''text_query'' \<mapsto> PStr ''CAN I PAINT?''))
     = route_to_agent ([''input_type'' \<mapsto> PStr ''text_only''](''text_query'' \<mapsto> PStr ''can i Paint?''))"
proof -
  have h: "lower ''CAN I PAINT?'' = lower ''can i Paint?''"
    by (simp add: char_eval)
  from h route_case_invariant [OF h, of "[''input_type'' \<mapsto> PStr ''text_only'']"]
  show ?thesis by blast
qed

text \<open>
  C9. The result of the classifier is determined by the text and the image of the state
  alone, and the result of the router by the shape and the text alone: two states that agree
  on these keys get the same result, whatever else they hold.
\<close>

theorem classify_route_depend_on_inputs_only:
  "(s ''text_query'' = s' ''text_query'' \<and> s ''image_path'' = s' ''image_path''
      \<longrightarrow> classify_input s = classify_input s')
   \<and> (s ''input_type'' = s' ''input_type'' \<and> s ''text_query'' = s' ''text_query''
      \<longrightarrow> route_to_agent s = route_to_agent s')"
  by (simp add: classify_input_def route_to_agent_def dict_get_def dict_get_default_def)

theorem classify_route_depend_on_inputs_only_witness:
  "[''text_query'' \<mapsto> PStr ''I have a leak'', ''input_type'' \<mapsto> PStr ''text_only'',
    ''user_location'' \<mapsto> PStr ''Paris''] ''text_query''
     = [''text_query'' \<mapsto> PStr ''I have a leak'', ''input_type'' \<mapsto> PStr ''text_only'',
        ''messages'' \<mapsto> PList []] ''text_query''
   \<and> classify_input
        [''text_query'' \<mapsto> PStr ''I have a leak'', ''input_type'' \<mapsto> PStr ''text_only'',
         ''user_location'' \<mapsto> PStr ''Paris'']
     = classify_input
        [''text_query'' \<mapsto> PStr ''I have a leak'', ''input_type'' \<mapsto> PStr ''text_only'',
         ''messages'' \<mapsto> PList []]
   \<and> route_to_agent
        [''text_query'' \<mapsto> PStr ''I have a leak'', ''input_type'' \<mapsto> PStr ''text_only'',
         ''user_location'' \<mapsto> PStr ''Paris'']
     = route_to_agent
        [''text_query'' \<mapsto> PStr ''I have a leak'', ''input_type'' \<mapsto> PStr ''text_only'',
         ''messages'' \<mapsto> PList []]"
proof -
  let ?s = "[''text_query'' \<mapsto> PStr ''I have a leak'', ''input_type'' \<mapsto> PStr ''text_only'',
             ''user_location'' \<mapsto> PStr ''Paris'']"
  let ?s' = "[''text_query'' \<mapsto> PStr ''I have a leak'', ''input_type'' \<mapsto> PStr ''text_only'',
              ''messages'' \<mapsto> PList []]"
  have h1: "?s ''text_query'' = ?s' ''text_query''" by simp
  have h2: "?s ''image_path'' = ?s' ''image_path''" by simp
  have h3: "?s ''input_type'' = ?s' ''input_type''" by simp
  from h1 h2 h3 classify_route_depend_on_inputs_only [of ?s ?s']
  show ?thesis by blast
qed

section \<open>The workflow on a request without usable text\<close>

text \<open>
  C8. The claim is that a request whose text normalizes to the empty text, with no image,
  ends in the error handler with the static message about the missing input. The query
  \<open>UserQuery(text_query="@")\<close> passes the validation; \<open>classify_input\<close> gives the shape
  \<open>error\<close> and the text \<open>None\<close>; the router raises \<open>AttributeError\<close>, the error node
  never runs, and the \<open>except\<close> of \<open>process_query\<close> builds the response from the text of
  the exception.
\<close>

theorem process_query_empty_after_cleaning:
  "UserQuery_init image_check (Some ''@'') None None
     = Inr \<lparr>text_query = Some ''@'', image_path = None, user_location = None\<rparr>
   \<and> process_query env \<lparr>text_query = Some ''@'', image_path = None, user_location = None\<rparr>
     = \<lparr>response = ''I encountered an error: 'NoneType' object has no attribute 'lower'. Please try again.'',
        agent_used = ''error'',
        needs_clarification = True,
        detected_issues = None,
        confidence_score = Some 0,
        suggestions = None\<rparr>"
  by (simp add: UserQuery_init_def validate_text_query_def validate_image_path_def
        validate_location_def workflow_eval router_eval text_eval)

section \<open>The classifier\<close>

text \<open>
  C5, as claimed: a text of punctuation only, with no image, has the shape \<open>error\<close>.
  The normalizer keeps the punctuation \<open>- . , ! ? ' " ( )\<close>, so the text \<open>?!\<close> is a text.
\<close>

theorem classify_input_punctuation_only:
  "classify_input [''text_query'' \<mapsto> PStr ''?!'']
     = Inr [''input_type'' \<mapsto> PStr ''text_only'', ''text_query'' \<mapsto> PStr ''?!'']"
  by (simp add: router_eval text_eval)

lemma clean_text_whitespace: "list_all isspace w \<Longrightarrow> clean_text w = []"
proof (cases w)
  case Nil
  then show ?thesis by (simp add: clean_text_def)
next
  case (Cons c cs)
  assume "list_all isspace w"
  with Cons have c: "isspace c" and cs: "dropWhile isspace cs = []"
    by (simp_all add: list_all_iff)
  have sp: "isspace CHR '' ''" by (simp add: isspace_def)
  from c have "sub_whitespace w = CHR '' '' # sub_whitespace (dropWhile isspace cs)"
    by (simp add: Cons)
  then have "sub_whitespace w = [CHR '' '']" by (simp only: cs sub_whitespace.simps)
  with sp show ?thesis by (simp add: clean_text_def Cons strip_def sub_special_def)
qed

lemma sub_whitespace_no_space:
  "\<forall>c \<in> set w. \<not> isspace c \<Longrightarrow> sub_whitespace w = w"
  by (induction w) simp_all

lemma strip_no_space: "\<forall>c \<in> set w. \<not> isspace c \<Longrightarrow> strip w = w"
proof -
  assume h: "\<forall>c \<in> set w. \<not> isspace c"
  then have "dropWhile isspace w = w" by (cases w) simp_all
  moreover from h have "dropWhile isspace (rev w) = rev w" by (cases "rev w") auto
  ultimately show ?thesis by (simp add: strip_def)
qed

lemma clean_text_dropped: "list_all (\<lambda>c. \<not> kept_char c) w \<Longrightarrow> clean_text w = []"
proof -
  assume h: "list_all (\<lambda>c. \<not> kept_char c) w"
  then have ns: "\<forall>c \<in> set w. \<not> isspace c" by (auto simp: list_all_iff kept_char_def)
  from h have "filter kept_char w = []" by (auto simp: list_all_iff filter_empty_conv)
  with ns show ?thesis
    by (simp add: clean_text_def sub_whitespace_no_space strip_no_space sub_special_def)
qed

text \<open>
  C5, amended. For every optional text and optional image, \<open>classify_input\<close> returns the
  shape of the decision table, where the image is present when it is a non-empty string and
  the text is present when its normalization is not empty; it echoes the normalized text,
  not the raw one (\<open>None\<close> when a non-empty text normalizes to the empty text). A text of
  whitespace only, or of characters the normalizer removes only, with no image, has the
  shape \<open>error\<close>.
\<close>

theorem classify_input_decision_table:
  assumes "dict_get state ''text_query'' = opt_val text"
      and "dict_get state ''image_path'' = opt_val img"
  shows "classify_input state
           = Inr [''input_type'' \<mapsto>
                    PStr (decision_table (img \<noteq> None \<and> img \<noteq> Some [])
                            (normalized text \<noteq> [])),
                  ''text_query'' \<mapsto>
                    (if text = Some [] then PStr []
                     else if normalized text = [] then PNone
                     else PStr (normalized text))]
         \<and> (\<forall>w. text = Some w \<and> (list_all isspace w \<or> list_all (\<lambda>c. \<not> kept_char c) w)
                \<and> (img = None \<or> img = Some [])
                \<longrightarrow> classify_input state
                      = Inr [''input_type'' \<mapsto> PStr ''error'',
                             ''text_query'' \<mapsto> (if w = [] then PStr [] else PNone)])"
proof -
  have main: "classify_input state
           = Inr [''input_type'' \<mapsto>
                    PStr (decision_table (img \<noteq> None \<and> img \<noteq> Some [])
                            (normalized text \<noteq> [])),
                  ''text_query'' \<mapsto>
                    (if text = Some [] then PStr []
                     else if normalized text = [] then PNone
                     else PStr (normalized text))]"
  proof (cases "text")
    case None
    with assms show ?thesis
      by (cases img)
         (simp_all add: classify_input_def opt_val_def normalized_def decision_table_def)
  next
    case (Some t)
    with assms show ?thesis
      by (cases img; cases "t = []")
         (simp_all add: classify_input_def opt_val_def normalized_def decision_table_def
            clean_text_value_def clean_text_def [of "[]"])
  qed
  show ?thesis
  proof (intro conjI allI impI)
    show "classify_input state
           = Inr [''input_type'' \<mapsto>
                    PStr (decision_table (img \<noteq> None \<and> img \<noteq> Some [])
                            (normalized text \<noteq> [])),
                  ''text_query'' \<mapsto>
                    (if text = Some [] then PStr []
                     else if normalized text = [] then PNone
                     else PStr (normalized text))]"
      by (rule main)
  next
    fix w
    assume h: "text = Some w \<and> (list_all isspace w \<or> list_all (\<lambda>c. \<not> kept_char c) w)
                \<and> (img = None \<or> img = Some [])"
    then have "normalized text = []"
      by (auto simp: normalized_def clean_text_whitespace clean_text_dropped)
    with h main show "classify_input state
                      = Inr [''input_type'' \<mapsto> PStr ''error'',
                             ''text_query'' \<mapsto> (if w = [] then PStr [] else PNone)]"
      by (auto simp: decision_table_def)
  qed
qed

theorem classify_input_decision_table_witness:
  "dict_get [''text_query'' \<mapsto> PStr [CHR '' '', CHR 0x09]] ''text_query''
     = opt_val (Some [CHR '' '', CHR 0x09])
   \<and> dict_get [''text_query'' \<mapsto> PStr [CHR '' '', CHR 0x09]] ''image_path'' = opt_val None
   \<and> list_all isspace [CHR '' '', CHR 0x09]
   \<and> classify_input [''text_query'' \<mapsto> PStr [CHR '' '', CHR 0x09]]
       = Inr [''input_type'' \<mapsto> PStr ''error'', ''text_query'' \<mapsto> PNone]"
proof -
  let ?s = "[''text_query'' \<mapsto> PStr [CHR '' '', CHR 0x09]]"
  have h1: "dict_get ?s ''text_query'' = opt_val (Some [CHR '' '', CHR 0x09])"
    by (simp add: dict_get_def opt_val_def)
  have h2: "dict_get ?s ''image_path'' = opt_val None"
    by (simp add: dict_get_def opt_val_def)
  have h3: "list_all isspace [CHR '' '', CHR 0x09]"
    by (simp add: isspace_def)
  from classify_input_decision_table [OF h1 h2] h3
  have "classify_input ?s
          = Inr [''input_type'' \<mapsto> PStr ''error'',
                 ''text_query'' \<mapsto> (if [CHR '' '', CHR 0x09] = [] then PStr [] else PNone)]"
    by blast
  with h1 h2 h3 show ?thesis by simp
qed

section \<open>The workflow when a handler fails\<close>

lemma AgentResponse_init_well_formed:
  "AgentResponse_init r a n d c s = Inr resp \<Longrightarrow> well_formed resp"
  by (auto simp: AgentResponse_init_def well_formed_def agent_used_field_def
        confidence_score_field_def split: sum.splits pyval.splits if_splits)

lemma process_query_well_formed: "well_formed (process_query env q)"
proof (cases "process_query_try env q")
  case (Inl e)
  then show ?thesis by (simp add: process_query_def well_formed_def)
next
  case (Inr resp)
  then have "well_formed resp"
    by (auto simp: process_query_try_def Let_def split: sum.splits
          dest: AgentResponse_init_well_formed)
  with Inr show ?thesis by (simp add: process_query_def)
qed

lemma input_dict_of_keys:
  "input_dict_of q k =
     (if k = ''messages'' then Some (PList [])
      else if k = ''user_location'' then map_option PStr (user_location q)
      else if k = ''image_path'' then map_option PStr (image_path q)
      else if k = ''text_query'' then map_option PStr (text_query q)
      else None)"
  by (cases "text_query q"; cases "image_path q"; cases "user_location q")
     (simp_all add: input_dict_of_def model_dump_def dump_field_def map_add_def)

lemma classify_input_update:
  assumes "classify_input x = Inr u"
  shows "\<exists>a b. u = [''input_type'' \<mapsto> PStr a, ''text_query'' \<mapsto> b]
           \<and> ((a = ''image_only'' \<or> a = ''text_and_image'')
                 \<longrightarrow> truthy (dict_get x ''image_path''))
           \<and> ((a = ''text_only'' \<or> a = ''text_and_image'') \<longrightarrow> truthy b)"
  using assms
  by (auto simp: classify_input_def Let_def split: sum.splits if_splits)

lemma route_vision_shape:
  "route_to_agent s = Inr ''agent_1_vision'' \<Longrightarrow>
   s ''input_type'' = Some (PStr ''image_only'') \<or> s ''input_type'' = Some (PStr ''text_and_image'')"
  by (auto simp: route_to_agent_def dict_get_default_def Let_def
        split: sum.splits if_splits option.splits)

lemma route_faq_shape:
  "route_to_agent s = Inr ''agent_2_faq'' \<Longrightarrow> s ''input_type'' = Some (PStr ''text_only'')"
  by (auto simp: route_to_agent_def dict_get_default_def Let_def
        split: sum.splits if_splits option.splits)

lemma workflow_invoke_routed:
  assumes "classify_input x = Inr u"
      and "route_to_agent (x ++ u) = Inr d"
      and "conditional_edges env d = Some node"
  shows "workflow_invoke env x = Inr ((x ++ u) ++ node (x ++ u))"
  using assms by (simp add: workflow_invoke_def Let_def)

lemma response_of_vision_error:
  assumes "s ''detected_issues'' = None" "s ''confidence_score'' = None"
      and "s ''suggestions'' = None"
  shows "AgentResponse_init
           (dict_get_default (s ++ VisionAgent_error_response m) ''agent_response'' d1)
           (dict_get_default (s ++ VisionAgent_error_response m) ''agent_used'' d2)
           (dict_get_default (s ++ VisionAgent_error_response m) ''needs_clarification'' d3)
           (dict_get (s ++ VisionAgent_error_response m) ''detected_issues'')
           (dict_get (s ++ VisionAgent_error_response m) ''confidence_score'')
           (dict_get (s ++ VisionAgent_error_response m) ''suggestions'')
         = Inr (handler_failure ''agent_1_vision'' m)"
  using assms
  by (simp add: VisionAgent_error_response_def map_add_def dict_get_def dict_get_default_def
        AgentResponse_init_def str_field_def agent_used_field_def bool_field_def
        opt_str_list_field_def confidence_score_field_def handler_failure_def)

lemma response_of_faq_error:
  assumes "s ''detected_issues'' = None" "s ''confidence_score'' = None"
      and "s ''suggestions'' = None"
  shows "AgentResponse_init
           (dict_get_default (s ++ FAQAgent_error_response m) ''agent_response'' d1)
           (dict_get_default (s ++ FAQAgent_error_response m) ''agent_used'' d2)
           (dict_get_default (s ++ FAQAgent_error_response m) ''needs_clarification'' d3)
           (dict_get (s ++ FAQAgent_error_response m) ''detected_issues'')
           (dict_get (s ++ FAQAgent_error_response m) ''confidence_score'')
           (dict_get (s ++ FAQAgent_error_response m) ''suggestions'')
         = Inr (handler_failure ''agent_2_faq'' m)"
  using assms
  by (simp add: FAQAgent_error_response_def map_add_def dict_get_def dict_get_default_def
        AgentResponse_init_def str_field_def agent_used_field_def bool_field_def
        opt_str_list_field_def confidence_score_field_def handler_failure_def)

lemma process_query_vision_error:
  assumes c: "classify_input (input_dict_of q) = Inr u"
      and r: "route_to_agent (input_dict_of q ++ u) = Inr ''agent_1_vision''"
      and p: "VisionAgent_process env (input_dict_of q ++ u) = VisionAgent_error_response m"
  shows "process_query env q = handler_failure ''agent_1_vision'' m"
proof -
  let ?s = "input_dict_of q ++ u"
  from classify_input_update [OF c] obtain a b
    where u: "u = [''input_type'' \<mapsto> PStr a, ''text_query'' \<mapsto> b]" by blast
  have k: "?s ''detected_issues'' = None" "?s ''confidence_score'' = None"
    "?s ''suggestions'' = None"
    by (simp_all add: u map_add_def input_dict_of_keys)
  have "conditional_edges env ''agent_1_vision'' = Some (agent_1_vision_node env)"
    by (simp add: conditional_edges_def)
  from workflow_invoke_routed [OF c r this]
  have "workflow_invoke env (input_dict_of q) = Inr (?s ++ VisionAgent_error_response m)"
    by (simp add: agent_1_vision_node_def p)
  then show ?thesis
    by (simp add: process_query_def process_query_try_def response_of_vision_error [OF k])
qed

lemma process_query_faq_error:
  assumes c: "classify_input (input_dict_of q) = Inr u"
      and r: "route_to_agent (input_dict_of q ++ u) = Inr ''agent_2_faq''"
      and p: "FAQAgent_process env (input_dict_of q ++ u) = FAQAgent_error_response m"
  shows "process_query env q = handler_failure ''agent_2_faq'' m"
proof -
  let ?s = "input_dict_of q ++ u"
  from classify_input_update [OF c] obtain a b
    where u: "u = [''input_type'' \<mapsto> PStr a, ''text_query'' \<mapsto> b]" by blast
  have k: "?s ''detected_issues'' = None" "?s ''confidence_score'' = None"
    "?s ''suggestions'' = None"
    by (simp_all add: u map_add_def input_dict_of_keys)
  have "conditional_edges env ''agent_2_faq'' = Some (agent_2_faq_node env)"
    by (simp add: conditional_edges_def)
  from workflow_invoke_routed [OF c r this]
  have "workflow_invoke env (input_dict_of q) = Inr (?s ++ FAQAgent_error_response m)"
    by (simp add: agent_2_faq_node_def p)
  then show ?thesis
    by (simp add: process_query_def process_query_try_def response_of_faq_error [OF k])
qed

text \<open>What the state holds when the router has chosen the vision agent or the FAQ agent.\<close>

lemma routed_to_vision_state:
  assumes c: "classify_input (input_dict_of q) = Inr u"
      and r: "route_to_agent (input_dict_of q ++ u) = Inr ''agent_1_vision''"
  shows "truthy (dict_get (input_dict_of q ++ u) ''image_path'')"
    and "dict_get (input_dict_of q ++ u) ''base64_image'' = PNone"
    and "dict_get_default (input_dict_of q ++ u) ''text_query'' d
           = dict_get (input_dict_of q ++ u) ''text_query''"
proof -
  let ?s = "input_dict_of q ++ u"
  from classify_input_update [OF c] obtain a b
    where u: "u = [''input_type'' \<mapsto> PStr a, ''text_query'' \<mapsto> b]"
      and i: "(a = ''image_only'' \<or> a = ''text_and_image'')
                \<longrightarrow> truthy (dict_get (input_dict_of q) ''image_path'')"
    by blast
  from route_vision_shape [OF r] have "a = ''image_only'' \<or> a = ''text_and_image''"
    by (simp add: u map_add_def)
  with i have "truthy (dict_get (input_dict_of q) ''image_path'')" by blast
  then show "truthy (dict_get ?s ''image_path'')"
    by (simp add: u map_add_def dict_get_def)
  show "dict_get ?s ''base64_image'' = PNone"
    by (simp add: u map_add_def dict_get_def input_dict_of_keys)
  show "dict_get_default ?s ''text_query'' d = dict_get ?s ''text_query''"
    by (simp add: u map_add_def dict_get_def dict_get_default_def)
qed

lemma routed_to_faq_state:
  assumes c: "classify_input (input_dict_of q) = Inr u"
      and r: "route_to_agent (input_dict_of q ++ u) = Inr ''agent_2_faq''"
  shows "truthy (dict_get (input_dict_of q ++ u) ''text_query'')"
    and "dict_get_default (input_dict_of q ++ u) ''text_query'' d
           = dict_get (input_dict_of q ++ u) ''text_query''"
proof -
  let ?s = "input_dict_of q ++ u"
  from classify_input_update [OF c] obtain a b
    where u: "u = [''input_type'' \<mapsto> PStr a, ''text_query'' \<mapsto> b]"
      and t: "(a = ''text_only'' \<or> a = ''text_and_image'') \<longrightarrow> truthy b"
    by blast
  from route_faq_shape [OF r] have "a = ''text_only''"
    by (simp add: u map_add_def)
  with t have "truthy b" by blast
  then show "truthy (dict_get ?s ''text_query'')"
    by (simp add: u map_add_def dict_get_def)
  show "dict_get_default ?s ''text_query'' d = dict_get ?s ''text_query''"
    by (simp add: u map_add_def dict_get_def dict_get_default_def)
qed

lemma handler_failure_cases:
  assumes c: "classify_input (input_dict_of q) = Inr update"
      and s: "state = input_dict_of q ++ update"
  shows "(route_to_agent state = Inr ''agent_1_vision''
        \<and> validate_image env (dict_get state ''image_path'') = Some msg
      \<longrightarrow> process_query env q = handler_failure ''agent_1_vision'' msg)
   \<and> (route_to_agent state = Inr ''agent_1_vision''
        \<and> validate_image env (dict_get state ''image_path'') = None
        \<and> encode_image env (dict_get state ''image_path'') = Inl e
      \<longrightarrow> process_query env q
            = handler_failure ''agent_1_vision'' (''Failed to process image: '' @ exn_str e))
   \<and> (route_to_agent state = Inr ''agent_1_vision''
        \<and> validate_image env (dict_get state ''image_path'') = None
        \<and> encode_image env (dict_get state ''image_path'') = Inr encoded
        \<and> vision_model_invoke env (dict_get state ''text_query'') (PStr encoded) = Inl e
      \<longrightarrow> process_query env q
            = handler_failure ''agent_1_vision'' (''Error analyzing image: '' @ exn_str e))
   \<and> (route_to_agent state = Inr ''agent_2_faq''
        \<and> text_model_invoke env (dict_get state ''text_query'')
              (dict_get_default state ''user_location'' (PStr [])) = Inl e
      \<longrightarrow> process_query env q
            = handler_failure ''agent_2_faq'' (''Error processing question: '' @ exn_str e))"
proof (intro conjI impI)
  assume h: "route_to_agent state = Inr ''agent_1_vision''
        \<and> validate_image env (dict_get state ''image_path'') = Some msg"
  then have r: "route_to_agent (input_dict_of q ++ update) = Inr ''agent_1_vision''"
    by (simp add: s)
  from h routed_to_vision_state(1) [OF c r]
  have "VisionAgent_process env (input_dict_of q ++ update) = VisionAgent_error_response msg"
    by (simp add: VisionAgent_process_def VisionAgent_process_try_def s)
  with c r show "process_query env q = handler_failure ''agent_1_vision'' msg"
    by (rule process_query_vision_error)
next
  assume h: "route_to_agent state = Inr ''agent_1_vision''
        \<and> validate_image env (dict_get state ''image_path'') = None
        \<and> encode_image env (dict_get state ''image_path'') = Inl e"
  then have r: "route_to_agent (input_dict_of q ++ update) = Inr ''agent_1_vision''"
    by (simp add: s)
  from h routed_to_vision_state(1,2) [OF c r]
  have "VisionAgent_process env (input_dict_of q ++ update)
          = VisionAgent_error_response (''Failed to process image: '' @ exn_str e)"
    by (simp add: VisionAgent_process_def VisionAgent_process_try_def s)
  with c r show "process_query env q
            = handler_failure ''agent_1_vision'' (''Failed to process image: '' @ exn_str e)"
    by (rule process_query_vision_error)
next
  assume h: "route_to_agent state = Inr ''agent_1_vision''
        \<and> validate_image env (dict_get state ''image_path'') = None
        \<and> encode_image env (dict_get state ''image_path'') = Inr encoded
        \<and> vision_model_invoke env (dict_get state ''text_query'') (PStr encoded) = Inl e"
  then have r: "route_to_agent (input_dict_of q ++ update) = Inr ''agent_1_vision''"
    by (simp add: s)
  from h routed_to_vision_state [OF c r]
  have "VisionAgent_process env (input_dict_of q ++ update)
          = VisionAgent_error_response (''Error analyzing image: '' @ exn_str e)"
    by (simp add: VisionAgent_process_def VisionAgent_process_try_def s)
  with c r show "process_query env q
            = handler_failure ''agent_1_vision'' (''Error analyzing image: '' @ exn_str e)"
    by (rule process_query_vision_error)
next
  assume h: "route_to_agent state = Inr ''agent_2_faq''
        \<and> text_model_invoke env (dict_get state ''text_query'')
              (dict_get_default state ''user_location'' (PStr [])) = Inl e"
  then have r: "route_to_agent (input_dict_of q ++ update) = Inr ''agent_2_faq''"
    by (simp add: s)
  from h routed_to_faq_state [OF c r]
  have "FAQAgent_process env (input_dict_of q ++ update)
          = FAQAgent_error_response (''Error processing question: '' @ exn_str e)"
    by (simp add: FAQAgent_process_def FAQAgent_process_try_def s)
  with c r show "process_query env q
            = handler_failure ''agent_2_faq'' (''Error processing question: '' @ exn_str e)"
    by (rule process_query_faq_error)
qed

lemma classify_input_of_query:
  "\<exists>update. classify_input (input_dict_of q) = Inr update"
  by (cases "text_query q")
     (simp_all add: classify_input_def dict_get_def input_dict_of_keys clean_text_value_def
        Let_def)

text \<open>
  C3. \<open>process_query\<close> returns a well-formed response for every environment and every
  request: whatever is raised inside its \<open>try\<close> becomes a response (the classifier never
  raises on a request). When the router has chosen the vision agent or the FAQ agent and a
  capability of that agent fails (the image is invalid, its encoding raises, the model call
  raises), the response names that agent as the handler, carries the message of the
  failure, and asks for clarification.
\<close>

theorem process_query_handler_failure:
  "well_formed (process_query env q)
   \<and> (\<exists>update. classify_input (input_dict_of q) = Inr update)
   \<and> (classify_input (input_dict_of q) = Inr update \<and> state = input_dict_of q ++ update
      \<longrightarrow> (route_to_agent state = Inr ''agent_1_vision''
               \<and> validate_image env (dict_get state ''image_path'') = Some msg
             \<longrightarrow> process_query env q = handler_failure ''agent_1_vision'' msg)
          \<and> (route_to_agent state = Inr ''agent_1_vision''
               \<and> validate_image env (dict_get state ''image_path'') = None
               \<and> encode_image env (dict_get state ''image_path'') = Inl e
             \<longrightarrow> process_query env q
                   = handler_failure ''agent_1_vision'' (''Failed to process image: '' @ exn_str e))
          \<and> (route_to_agent state = Inr ''agent_1_vision''
               \<and> validate_image env (dict_get state ''image_path'') = None
               \<and> encode_image env (dict_get state ''image_path'') = Inr encoded
               \<and> vision_model_invoke env (dict_get state ''text_query'') (PStr encoded) = Inl e
             \<longrightarrow> process_query env q
                   = handler_failure ''agent_1_vision'' (''Error analyzing image: '' @ exn_str e))
          \<and> (route_to_agent state = Inr ''agent_2_faq''
               \<and> text_model_invoke env (dict_get state ''text_query'')
                     (dict_get_default state ''user_location'' (PStr [])) = Inl e
             \<longrightarrow> process_query env q
                   = handler_failure ''agent_2_faq'' (''Error processing question: '' @ exn_str e)))"
proof -
  have wf: "well_formed (process_query env q)" by (rule process_query_well_formed)
  have ex: "\<exists>update. classify_input (input_dict_of q) = Inr update"
    by (rule classify_input_of_query)
  have fail: "classify_input (input_dict_of q) = Inr update \<and> state = input_dict_of q ++ update
      \<longrightarrow> (route_to_agent state = Inr ''agent_1_vision''
               \<and> validate_image env (dict_get state ''image_path'') = Some msg
             \<longrightarrow> process_query env q = handler_failure ''agent_1_vision'' msg)
          \<and> (route_to_agent state = Inr ''agent_1_vision''
               \<and> validate_image env (dict_get state ''image_path'') = None
               \<and> encode_image env (dict_get state ''image_path'') = Inl e
             \<longrightarrow> process_query env q
                   = handler_failure ''agent_1_vision'' (''Failed to process image: '' @ exn_str e))
          \<and> (route_to_agent state = Inr ''agent_1_vision''
               \<and> validate_image env (dict_get state ''image_path'') = None
               \<and> encode_image env (dict_get state ''image_path'') = Inr encoded
               \<and> vision_model_invoke env (dict_get state ''text_query'') (PStr encoded) = Inl e
             \<longrightarrow> process_query env q
                   = handler_failure ''agent_1_vision'' (''Error analyzing image: '' @ exn_str e))
          \<and> (route_to_agent state = Inr ''agent_2_faq''
               \<and> text_model_invoke env (dict_get state ''text_query'')
                     (dict_get_default state ''user_location'' (PStr [])) = Inl e
             \<longrightarrow> process_query env q
                   = handler_failure ''agent_2_faq'' (''Error processing question: '' @ exn_str e))"
  proof (rule impI)
    assume h: "classify_input (input_dict_of q) = Inr update
                 \<and> state = input_dict_of q ++ update"
    then have c: "classify_input (input_dict_of q) = Inr update"
      and s: "state = input_dict_of q ++ update"
      by blast+
    from handler_failure_cases [OF c s]
    show "(route_to_agent state = Inr ''agent_1_vision''
               \<and> validate_image env (dict_get state ''image_path'') = Some msg
             \<longrightarrow> process_query env q = handler_failure ''agent_1_vision'' msg)
          \<and> (route_to_agent state = Inr ''agent_1_vision''
               \<and> validate_image env (dict_get state ''image_path'') = None
               \<and> encode_image env (dict_get state ''image_path'') = Inl e
             \<longrightarrow> process_query env q
                   = handler_failure ''agent_1_vision'' (''Failed to process image: '' @ exn_str e))
          \<and> (route_to_agent state = Inr ''agent_1_vision''
               \<and> validate_image env (dict_get state ''image_path'') = None
               \<and> encode_image env (dict_get state ''image_path'') = Inr encoded
               \<and> vision_model_invoke env (dict_get state ''text_query'') (PStr encoded) = Inl e
             \<longrightarrow> process_query env q
                   = handler_failure ''agent_1_vision'' (''Error analyzing image: '' @ exn_str e))
          \<and> (route_to_agent state = Inr ''agent_2_faq''
               \<and> text_model_invoke env (dict_get state ''text_query'')
                     (dict_get_default state ''user_location'' (PStr [])) = Inl e
             \<longrightarrow> process_query env q
                   = handler_failure ''agent_2_faq'' (''Error processing question: '' @ exn_str e))"
      by blast
  qed
  from wf ex fail show ?thesis by blast
qed

theorem process_query_handler_failure_witness:
  "classify_input
     (input_dict_of \<lparr>text_query = Some ''what is this'', image_path = Some ''a.jpg'',
                      user_location = None\<rparr>)
     = Inr [''input_type'' \<mapsto> PStr ''text_and_image'', ''text_query'' \<mapsto> PStr ''what is this'']
   \<and> route_to_agent
        (input_dict_of \<lparr>text_query = Some ''what is this'', image_path = Some ''a.jpg'',
                         user_location = None\<rparr>
           ++ [''input_type'' \<mapsto> PStr ''text_and_image'', ''text_query'' \<mapsto> PStr ''what is this''])
     = Inr ''agent_1_vision''
   \<and> well_formed
        (process_query failing_models
           \<lparr>text_query = Some ''what is this'', image_path = Some ''a.jpg'',
            user_location = None\<rparr>)
   \<and> process_query failing_models
        \<lparr>text_query = Some ''what is this'', image_path = Some ''a.jpg'', user_location = None\<rparr>
     = handler_failure ''agent_1_vision'' ''Error analyzing image: rate limit''
   \<and> classify_input
        (input_dict_of \<lparr>text_query = Some ''Can my landlord evict me?'', image_path = None,
                         user_location = None\<rparr>)
     = Inr [''input_type'' \<mapsto> PStr ''text_only'',
            ''text_query'' \<mapsto> PStr ''Can my landlord evict me?'']
   \<and> route_to_agent
        (input_dict_of \<lparr>text_query = Some ''Can my landlord evict me?'', image_path = None,
                         user_location = None\<rparr>
           ++ [''input_type'' \<mapsto> PStr ''text_only'',
               ''text_query'' \<mapsto> PStr ''Can my landlord evict me?''])
     = Inr ''agent_2_faq''
   \<and> process_query failing_models
        \<lparr>text_query = Some ''Can my landlord evict me?'', image_path = None,
         user_location = None\<rparr>
     = handler_failure ''agent_2_faq'' ''Error processing question: timeout''"
proof -
  let ?qv = "\<lparr>text_query = Some ''what is this'', image_path = Some ''a.jpg'',
              user_location = None\<rparr>"
  let ?uv = "[''input_type'' \<mapsto> PStr ''text_and_image'', ''text_query'' \<mapsto> PStr ''what is this'']"
  let ?qf = "\<lparr>text_query = Some ''Can my landlord evict me?'', image_path = None,
              user_location = None\<rparr>"
  let ?uf = "[''input_type'' \<mapsto> PStr ''text_only'',
              ''text_query'' \<mapsto> PStr ''Can my landlord evict me?'']"
  have cv: "classify_input (input_dict_of ?qv) = Inr ?uv"
    by (simp add: input_dict_of_def model_dump_def dump_field_def router_eval text_eval)
  have rv: "route_to_agent (input_dict_of ?qv ++ ?uv) = Inr ''agent_1_vision''"
    by (simp add: router_eval map_add_def)
  have ev: "validate_image failing_models (dict_get (input_dict_of ?qv ++ ?uv) ''image_path'') = None
        \<and> encode_image failing_models (dict_get (input_dict_of ?qv ++ ?uv) ''image_path'')
            = Inr ''QUJD''
        \<and> vision_model_invoke failing_models (dict_get (input_dict_of ?qv ++ ?uv) ''text_query'')
              (PStr ''QUJD'') = Inl (ExternalError ''rate limit'')"
    by (simp add: failing_models_def)
  have cf: "classify_input (input_dict_of ?qf) = Inr ?uf"
    by (simp add: input_dict_of_def model_dump_def dump_field_def router_eval text_eval)
  have rf: "route_to_agent (input_dict_of ?qf ++ ?uf) = Inr ''agent_2_faq''"
    by (simp add: router_eval map_add_def extract_keywords_def TENANCY_KEYWORDS_def
          MAINTENANCE_KEYWORDS_def char_eval)
  have ef: "text_model_invoke failing_models (dict_get (input_dict_of ?qf ++ ?uf) ''text_query'')
              (dict_get_default (input_dict_of ?qf ++ ?uf) ''user_location'' (PStr []))
            = Inl (ExternalError ''timeout'')"
    by (simp add: failing_models_def)
  from process_query_handler_failure
         [of failing_models ?qv ?uv "input_dict_of ?qv ++ ?uv" _ _ "''QUJD''"] cv rv ev
  have v: "well_formed (process_query failing_models ?qv)
     \<and> process_query failing_models ?qv
       = handler_failure ''agent_1_vision''
           (''Error analyzing image: '' @ exn_str (ExternalError ''rate limit''))"
    by blast
  from process_query_handler_failure [of failing_models ?qf ?uf "input_dict_of ?qf ++ ?uf"]
    cf rf ef
  have f: "process_query failing_models ?qf
       = handler_failure ''agent_2_faq''
           (''Error processing question: '' @ exn_str (ExternalError ''timeout''))"
    by blast
  from v have v1: "well_formed (process_query failing_models ?qv)" by blast
  from v have v2: "process_query failing_models ?qv
       = handler_failure ''agent_1_vision'' ''Error analyzing image: rate limit''"
    by simp
  from f have f2: "process_query failing_models ?qf
       = handler_failure ''agent_2_faq'' ''Error processing question: timeout''"
    by simp
  from cv rv cf rf v1 v2 f2 show ?thesis by blast
qed

end
